theory Spec2Isabelle
  imports Complex_Main
begin

section \<open>Python values and exceptions\<close>

text \<open>
  The two uploaders exchange JSON with a remote platform. \<open>pyval\<close> is the set of Python
  objects that decoding a JSON document can yield (and that the uploaders pass on in
  request bodies): \<open>None\<close>, \<open>bool\<close>, \<open>int\<close>, \<open>float\<close>, \<open>str\<close>, \<open>list\<close> and \<open>dict\<close>.
  A \<open>dict\<close> is an association list in insertion order; its keys are distinct, as in
  Python, and a lookup is \<open>map_of\<close>.

  A Python \<open>float\<close> is kept only as far as its truth value needs: a finite value (a
  rational), the negative zero, the two infinities and NaN.
\<close>

datatype pyfloat = Finite rat | NegZero | PosInf | NegInf | NaN

datatype pyval =
    PNone
  | PBool bool
  | PInt int
  | PFloat pyfloat
  | PStr string
  | PList "pyval list"
  | PDict "(string \<times> pyval) list"

text \<open>
  Exceptions. \<open>Exception label detail\<close> is \<open>Exception(label, detail)\<close>, the only exception
  the repository raises itself. \<open>JSONDecodeError\<close> is what \<open>res.json()\<close> raises on a body
  that is no JSON document, \<open>AttributeError\<close> what \<open>.get\<close> raises on a decoded value that
  is no \<open>dict\<close>, \<open>KeyError\<close> and \<open>TypeError\<close> what a subscript raises.
  \<open>LibraryError\<close> stands for whatever a call into an external library raises
  (connection failures, HTTP errors of the Google client, a missing file).
\<close>

datatype exn =
    Exception string string
  | JSONDecodeError
  | AttributeError
  | KeyError string
  | TypeError
  | LibraryError string

text \<open>Python's truth value of an object, as tested by \<open>not x\<close>.\<close>

fun truthy_float :: "pyfloat \<Rightarrow> bool" where
  "truthy_float (Finite q) = (q \<noteq> 0)"
| "truthy_float NegZero = False"
| "truthy_float PosInf = True"
| "truthy_float NegInf = True"
| "truthy_float NaN = True"

fun truthy :: "pyval \<Rightarrow> bool" where
  "truthy PNone = False"
| "truthy (PBool b) = b"
| "truthy (PInt i) = (i \<noteq> 0)"
| "truthy (PFloat f) = truthy_float f"
| "truthy (PStr s) = (s \<noteq> [])"
| "truthy (PList xs) = (xs \<noteq> [])"
| "truthy (PDict kvs) = (kvs \<noteq> [])"

text \<open>\<open>obj.get(key)\<close>: on a \<open>dict\<close> the value, or \<open>None\<close> for a missing key; no other
  decoded value has a \<open>get\<close> attribute.\<close>

fun py_get :: "pyval \<Rightarrow> string \<Rightarrow> exn + pyval" where
  "py_get (PDict kvs) k = Inr (case map_of kvs k of None \<Rightarrow> PNone | Some v \<Rightarrow> v)"
| "py_get PNone k = Inl AttributeError"
| "py_get (PBool b) k = Inl AttributeError"
| "py_get (PInt i) k = Inl AttributeError"
| "py_get (PFloat f) k = Inl AttributeError"
| "py_get (PStr s) k = Inl AttributeError"
| "py_get (PList xs) k = Inl AttributeError"

text \<open>\<open>obj[key]\<close> with a string key: on a \<open>dict\<close> the value, or \<open>KeyError\<close>; on every other
  decoded value a \<open>TypeError\<close>.\<close>

fun py_subscript :: "pyval \<Rightarrow> string \<Rightarrow> exn + pyval" where
  "py_subscript (PDict kvs) k = (case map_of kvs k of None \<Rightarrow> Inl (KeyError k) | Some v \<Rightarrow> Inr v)"
| "py_subscript PNone k = Inl TypeError"
| "py_subscript (PBool b) k = Inl TypeError"
| "py_subscript (PInt i) k = Inl TypeError"
| "py_subscript (PFloat f) k = Inl TypeError"
| "py_subscript (PStr s) k = Inl TypeError"
| "py_subscript (PList xs) k = Inl TypeError"

section \<open>The HTTP client (\<open>requests\<close>)\<close>

text \<open>
  A request is the URL and the form data of a \<open>requests.post(url, data=...)\<close>. A response
  carries what the uploader reads from it: \<open>status_code\<close>, \<open>text\<close> and the outcome of
  \<open>json()\<close> (\<open>None\<close> when the body does not decode, in which case \<open>json()\<close> raises).

  The remote side is a function from the requests issued so far and the current request
  to a response, or to the exception \<open>requests.post\<close> raises. \<open>requests_post\<close> performs one
  call and records it in the log of requests issued.

  The fields \<open>res_text\<close> and \<open>res_json\<close> are the response's \<open>text\<close> and the value its
  \<open>json()\<close> decodes; \<open>json\<close> below is the method call itself, which may raise.
\<close>

record request =
  req_url :: string
  req_data :: "(string \<times> pyval) list"

record response =
  status_code :: int
  res_text :: string
  res_json :: "pyval option"

type_synonym remote = "request list \<Rightarrow> request \<Rightarrow> exn + response"

definition requests_post ::
  "remote \<Rightarrow> string \<Rightarrow> (string \<times> pyval) list \<Rightarrow> request list \<Rightarrow> (exn + response) \<times> request list" where
  "requests_post net u d sent =
     (let rq = \<lparr>req_url = u, req_data = d\<rparr> in (net sent rq, sent @ [rq]))"

definition json :: "response \<Rightarrow> exn + pyval" where
  "json res = (case res_json res of None \<Rightarrow> Inl JSONDecodeError | Some j \<Rightarrow> Inr j)"

section \<open>\<open>instagram_uploader.upload_to_instagram\<close>\<close>

definition video_url :: "string \<Rightarrow> string" where
  "video_url ig_user_id = ''https://graph-video.facebook.com/v17.0/'' @ ig_user_id @ ''/media''"

definition publish_url :: "string \<Rightarrow> string" where
  "publish_url ig_user_id = ''https://graph.facebook.com/v17.0/'' @ ig_user_id @ ''/media_publish''"

definition params :: "string \<Rightarrow> string \<Rightarrow> (string \<times> pyval) list" where
  "params video_path access_token =
     [(''video_url'', PStr video_path),
      (''caption'', PStr ''Posted via AI backend!''),
      (''access_token'', PStr access_token)]"

text \<open>
  The function returns its outcome (the value returned, or the exception raised) together
  with the requests it has issued, in order.
\<close>

definition upload_to_instagram ::
  "remote \<Rightarrow> string \<Rightarrow> string \<Rightarrow> string \<Rightarrow> (exn + pyval) \<times> request list" where
  "upload_to_instagram net video_path access_token ig_user_id =
     (case requests_post net (video_url ig_user_id) (params video_path access_token) [] of
        (Inl e, log1) \<Rightarrow> (Inl e, log1)
      | (Inr res, log1) \<Rightarrow>
          (case json res of
             Inl e \<Rightarrow> (Inl e, log1)
           | Inr decoded \<Rightarrow>
               (case py_get decoded ''id'' of
                  Inl e \<Rightarrow> (Inl e, log1)
                | Inr container_id \<Rightarrow>
                    if \<not> truthy container_id
                    then (Inl (Exception ''Error creating container'' (res_text res)), log1)
                    else
                      (case requests_post net (publish_url ig_user_id)
                              [(''creation_id'', container_id),
                               (''access_token'', PStr access_token)] log1 of
                         (Inl e, log2) \<Rightarrow> (Inl e, log2)
                       | (Inr res2, log2) \<Rightarrow>
                           if status_code res2 \<noteq> 200
                           then (Inl (Exception ''Error publishing video'' (res_text res2)), log2)
                           else (json res2, log2)))))"

text \<open>The two requests of a call, and the number of requests to the publish endpoint among
  the requests issued.\<close>

definition creation_request :: "string \<Rightarrow> string \<Rightarrow> string \<Rightarrow> request" where
  "creation_request video_path access_token ig_user_id =
     \<lparr>req_url = video_url ig_user_id, req_data = params video_path access_token\<rparr>"

definition publish_request :: "pyval \<Rightarrow> string \<Rightarrow> string \<Rightarrow> request" where
  "publish_request container_id access_token ig_user_id =
     \<lparr>req_url = publish_url ig_user_id,
      req_data = [(''creation_id'', container_id), (''access_token'', PStr access_token)]\<rparr>"

definition publish_calls :: "string \<Rightarrow> request list \<Rightarrow> nat" where
  "publish_calls ig_user_id sent =
     length (filter (\<lambda>rq. req_url rq = publish_url ig_user_id) sent)"

text \<open>
  Two remote sides used below. \<open>scripted r1 r2\<close> answers the first request with \<open>r1\<close> and
  every later one with \<open>r2\<close>. \<open>with_creation_status c net\<close> is \<open>net\<close> with the status code
  of the answer to the first request replaced by \<open>c\<close>.
\<close>

definition scripted :: "response \<Rightarrow> response \<Rightarrow> remote" where
  "scripted r1 r2 sent rq = (if sent = [] then Inr r1 else Inr r2)"

definition with_creation_status :: "int \<Rightarrow> remote \<Rightarrow> remote" where
  "with_creation_status c net sent rq =
     (if sent = []
      then (case net sent rq of Inl e \<Rightarrow> Inl e | Inr res \<Rightarrow> Inr (res\<lparr>status_code := c\<rparr>))
      else net sent rq)"

text \<open>Responses used in the examples below.\<close>

definition res_container :: response where
  \<open>res_container = \<lparr>status_code = 200, res_text = ''{"id": "17895"}'',
                     res_json = Some (PDict [(''id'', PStr ''17895'')])\<rparr>\<close>

definition res_container_500 :: response where
  \<open>res_container_500 = \<lparr>status_code = 500, res_text = ''{"id": "17895"}'',
                         res_json = Some (PDict [(''id'', PStr ''17895'')])\<rparr>\<close>

definition res_no_id :: response where
  \<open>res_no_id = \<lparr>status_code = 200, res_text = ''{}'', res_json = Some (PDict [])\<rparr>\<close>

definition res_zero_id :: response where
  \<open>res_zero_id = \<lparr>status_code = 200, res_text = ''{"id": 0}'',
                   res_json = Some (PDict [(''id'', PInt 0)])\<rparr>\<close>

definition res_published :: response where
  \<open>res_published = \<lparr>status_code = 200, res_text = ''{"id": "final123"}'',
                     res_json = Some (PDict [(''id'', PStr ''final123'')])\<rparr>\<close>

definition res_publish_failed :: response where
  \<open>res_publish_failed = \<lparr>status_code = 500, res_text = ''Internal Server Error'',
                          res_json = None\<rparr>\<close>

definition res_list_body :: response where
  \<open>res_list_body = \<lparr>status_code = 200, res_text = ''[]'', res_json = Some (PList [])\<rparr>\<close>

definition res_not_json :: response where
  \<open>res_not_json = \<lparr>status_code = 502, res_text = ''<html>Bad Gateway</html>'',
                    res_json = None\<rparr>\<close>

section \<open>\<open>youtube_uploader.upload_to_youtube\<close>\<close>

text \<open>
  The Google client library is outside the repository: it is a parameter, one function per
  call the uploader makes, each returning its result or the exception it raises. The types
  of the library's objects (credentials, service, the \<open>videos()\<close> resource, the media
  upload, the prepared request) are left open. \<open>execute\<close> returns the decoded response.
  \<open>insert_request\<close> is the \<open>insert\<close> method of the \<open>videos()\<close> resource, with its \<open>part\<close>,
  \<open>body\<close> and \<open>media_body\<close> arguments.
\<close>

record ('c, 's, 'v, 'm, 'r) google_client =
  from_service_account_file :: "string \<Rightarrow> string list \<Rightarrow> exn + 'c"
  build :: "string \<Rightarrow> string \<Rightarrow> 'c \<Rightarrow> exn + 's"
  videos :: "'s \<Rightarrow> exn + 'v"
  MediaFileUpload :: "string \<Rightarrow> exn + 'm"
  insert_request :: "'v \<Rightarrow> string \<Rightarrow> pyval \<Rightarrow> 'm \<Rightarrow> exn + 'r"
  execute :: "'r \<Rightarrow> exn + pyval"

text \<open>The library calls of an invocation, with their arguments, in order.\<close>

datatype ('c, 's, 'v, 'm, 'r) call =
    Call_from_service_account_file string "string list"
  | Call_build string string 'c
  | Call_videos 's
  | Call_MediaFileUpload string
  | Call_insert 'v string pyval 'm
  | Call_execute 'r

definition scopes :: "string list" where
  "scopes = [''https://www.googleapis.com/auth/youtube.upload'']"

definition body :: "string \<Rightarrow> string \<Rightarrow> pyval" where
  "body title description =
     PDict [(''snippet'', PDict [(''title'', PStr title),
                                 (''description'', PStr description),
                                 (''tags'', PList [PStr ''AI'', PStr ''Video'', PStr ''Generated'']),
                                 (''categoryId'', PStr ''22'')]),
            (''status'', PDict [(''privacyStatus'', PStr ''unlisted'')])]"

text \<open>
  Python evaluates \<open>youtube.videos()\<close> before the arguments of \<open>insert\<close>, so the media
  upload is opened after the resource is obtained and before the request is prepared.
\<close>

definition upload_to_youtube ::
  "('c, 's, 'v, 'm, 'r) google_client \<Rightarrow> string \<Rightarrow> string \<Rightarrow> string \<Rightarrow> string \<Rightarrow>
     (exn + pyval) \<times> ('c, 's, 'v, 'm, 'r) call list" where
  "upload_to_youtube g video_path title description credentials_json =
     (let t1 = [Call_from_service_account_file credentials_json scopes] in
      case from_service_account_file g credentials_json scopes of
        Inl e \<Rightarrow> (Inl e, t1)
      | Inr credentials \<Rightarrow>
          (let t2 = t1 @ [Call_build ''youtube'' ''v3'' credentials] in
           case build g ''youtube'' ''v3'' credentials of
             Inl e \<Rightarrow> (Inl e, t2)
           | Inr youtube \<Rightarrow>
               (let t3 = t2 @ [Call_videos youtube] in
                case videos g youtube of
                  Inl e \<Rightarrow> (Inl e, t3)
                | Inr resource \<Rightarrow>
                    (let t4 = t3 @ [Call_MediaFileUpload video_path] in
                     case MediaFileUpload g video_path of
                       Inl e \<Rightarrow> (Inl e, t4)
                     | Inr media_body \<Rightarrow>
                         (let t5 = t4 @ [Call_insert resource ''snippet,status''
                                           (body title description) media_body] in
                          case insert_request g resource ''snippet,status''
                                 (body title description) media_body of
                            Inl e \<Rightarrow> (Inl e, t5)
                          | Inr request \<Rightarrow>
                              (let t6 = t5 @ [Call_execute request] in
                               case execute g request of
                                 Inl e \<Rightarrow> (Inl e, t6)
                               | Inr response \<Rightarrow> (py_subscript response ''id'', t6)))))))"

text \<open>
  A client for the examples below: every call succeeds, the objects record what they were
  made from, and \<open>execute\<close> returns the given response.
\<close>

type_synonym demo_cred = "string \<times> string list"

definition demo_client ::
  "pyval \<Rightarrow> (demo_cred, demo_cred, demo_cred, string, demo_cred \<times> pyval \<times> string) google_client" where
  "demo_client response =
     \<lparr>from_service_account_file = (\<lambda>f sc. Inr (f, sc)),
      build = (\<lambda>n ver c. Inr c),
      videos = (\<lambda>s. Inr s),
      MediaFileUpload = (\<lambda>p. Inr p),
      insert_request = (\<lambda>v part b m. Inr (v, b, m)),
      execute = (\<lambda>r. Inr response)\<rparr>"

text \<open>The same client for a key file that cannot be read: loading the credential raises.\<close>

definition no_key_client ::
  "(demo_cred, demo_cred, demo_cred, string, demo_cred \<times> pyval \<times> string) google_client" where
  "no_key_client =
     (demo_client PNone)\<lparr>from_service_account_file :=
        (\<lambda>f sc. Inl (LibraryError ''FileNotFoundError''))\<rparr>"

text \<open>
  An upload request is constructed when the library's \<open>insert\<close> is called and returns one.
  \<open>requests_constructed g t\<close> counts the calls of the trace \<open>t\<close> that do.
\<close>

fun constructs :: "('c, 's, 'v, 'm, 'r) google_client \<Rightarrow> ('c, 's, 'v, 'm, 'r) call \<Rightarrow> bool" where
  "constructs g (Call_insert v p b m) =
     (case insert_request g v p b m of Inl e \<Rightarrow> False | Inr request \<Rightarrow> True)"
| "constructs g (Call_from_service_account_file f sc) = False"
| "constructs g (Call_build n ver c) = False"
| "constructs g (Call_videos s) = False"
| "constructs g (Call_MediaFileUpload p) = False"
| "constructs g (Call_execute r) = False"

definition requests_constructed ::
  "('c, 's, 'v, 'm, 'r) google_client \<Rightarrow> ('c, 's, 'v, 'm, 'r) call list \<Rightarrow> nat" where
  "requests_constructed g t = length (filter (constructs g) t)"

section \<open>Properties of \<open>upload_to_instagram\<close>\<close>

lemma video_url_neq_publish_url: "video_url u \<noteq> publish_url u"
  by (simp add: video_url_def publish_url_def)

lemma upload_to_instagram_unfold:
  assumes "net [] (creation_request video_path access_token ig_user_id) = Inr res"
  shows "upload_to_instagram net video_path access_token ig_user_id =
     (case json res of
        Inl e \<Rightarrow> (Inl e, [creation_request video_path access_token ig_user_id])
      | Inr decoded \<Rightarrow>
          (case py_get decoded ''id'' of
             Inl e \<Rightarrow> (Inl e, [creation_request video_path access_token ig_user_id])
           | Inr container_id \<Rightarrow>
               if \<not> truthy container_id
               then (Inl (Exception ''Error creating container'' (res_text res)),
                     [creation_request video_path access_token ig_user_id])
               else
                 (case net [creation_request video_path access_token ig_user_id]
                         (publish_request container_id access_token ig_user_id) of
                    Inl e \<Rightarrow> (Inl e, [creation_request video_path access_token ig_user_id,
                                      publish_request container_id access_token ig_user_id])
                  | Inr res2 \<Rightarrow>
                      (if status_code res2 \<noteq> 200
                       then Inl (Exception ''Error publishing video'' (res_text res2))
                       else json res2,
                       [creation_request video_path access_token ig_user_id,
                        publish_request container_id access_token ig_user_id]))))"
  using assms
  by (simp add: upload_to_instagram_def requests_post_def creation_request_def
      publish_request_def Let_def split: sum.splits)

lemma publish_calls_creation_only:
  "publish_calls u [creation_request v a u] = 0"
  by (simp add: publish_calls_def creation_request_def video_url_neq_publish_url)

lemma publish_calls_both:
  "publish_calls u [creation_request v a u, publish_request c a u] = 1"
  by (simp add: publish_calls_def creation_request_def publish_request_def
      video_url_neq_publish_url)

text \<open>Which identifiers count as present: a string is truthy exactly when it is not empty,
  and the falsy values are the following eight.\<close>

lemma truthy_nonempty_string: "truthy (PStr s) \<longleftrightarrow> s \<noteq> []"
  by simp

lemma falsy_values:
  "\<not> truthy v \<longleftrightarrow>
     v \<in> {PNone, PBool False, PInt 0, PFloat (Finite 0), PFloat NegZero, PStr [], PList [], PDict []}"
proof (cases v)
  case (PFloat f)
  then show ?thesis by (cases f) auto
qed auto

text \<open>
  Claim C1. When the body of the container-creation response is an object with a non-empty
  (truthy) \<open>id\<close> and the publish response has status 200, the call returns the decoded
  JSON body of the publish response.
\<close>

theorem upload_to_instagram_returns_publish_json:
  assumes "net [] (creation_request video_path access_token ig_user_id) = Inr res"
    and "res_json res = Some (PDict kvs)"
    and "map_of kvs ''id'' = Some container_id"
    and "truthy container_id"
    and "net [creation_request video_path access_token ig_user_id]
           (publish_request container_id access_token ig_user_id) = Inr res2"
    and "status_code res2 = 200"
    and "res_json res2 = Some j"
  shows "fst (upload_to_instagram net video_path access_token ig_user_id) = Inr j"
  using assms by (simp add: upload_to_instagram_unfold json_def)

theorem upload_to_instagram_returns_publish_json_witness:
  "scripted res_container res_published []
       (creation_request ''https://cdn.example/clip.mp4'' ''token'' ''1784'') = Inr res_container
   \<and> res_json res_container = Some (PDict [(''id'', PStr ''17895'')])
   \<and> truthy (PStr ''17895'')
   \<and> status_code res_published = 200
   \<and> fst (upload_to_instagram (scripted res_container res_published)
            ''https://cdn.example/clip.mp4'' ''token'' ''1784'')
       = Inr (PDict [(''id'', PStr ''final123'')])"
  using upload_to_instagram_returns_publish_json [of "scripted res_container res_published"
        "''https://cdn.example/clip.mp4''" "''token''" "''1784''" res_container
        "[(''id'', PStr ''17895'')]" "PStr ''17895''" res_published
        "PDict [(''id'', PStr ''final123'')]"]
  by (simp add: scripted_def res_container_def res_published_def)

text \<open>
  Claim C2 says that every creation response whose body has no \<open>id\<close> field ends in the
  creation error. A body that is the JSON array \<open>[]\<close> has no \<open>id\<close> field, yet the call
  ends in the \<open>AttributeError\<close> of \<open>.get\<close>, which the array does not have.
\<close>

theorem upload_to_instagram_list_body_raises_attribute_error:
  \<open>fst (upload_to_instagram (scripted res_list_body res_published)
          ''https://cdn.example/clip.mp4'' ''token'' ''1784'') = Inl AttributeError
   \<and> fst (upload_to_instagram (scripted res_list_body res_published)
          ''https://cdn.example/clip.mp4'' ''token'' ''1784'')
       \<noteq> Inl (Exception ''Error creating container'' (res_text res_list_body))
   \<and> res_json res_list_body = Some (PList [])\<close>
  by (simp add: upload_to_instagram_def requests_post_def scripted_def json_def res_list_body_def)

text \<open>
  Claim C2, as amended. When the body of the container-creation response is a JSON object
  without an \<open>id\<close> field, the call raises \<open>Exception("Error creating container", res.text)\<close>:
  the creation error, carrying the raw text of that response. When the body is no JSON
  document the call ends in the decoding error of \<open>res.json()\<close>, and when it is a JSON
  value other than an object, in the \<open>AttributeError\<close> of \<open>.get\<close>.
\<close>

theorem upload_to_instagram_missing_id_raises:
  assumes "net [] (creation_request video_path access_token ig_user_id) = Inr res"
  shows "(\<forall>kvs. res_json res = Some (PDict kvs) \<longrightarrow> map_of kvs ''id'' = None
            \<longrightarrow> fst (upload_to_instagram net video_path access_token ig_user_id)
                  = Inl (Exception ''Error creating container'' (res_text res)))
       \<and> (res_json res = None
            \<longrightarrow> fst (upload_to_instagram net video_path access_token ig_user_id)
                  = Inl JSONDecodeError)
       \<and> (\<forall>decoded. res_json res = Some decoded \<longrightarrow> (\<forall>kvs. decoded \<noteq> PDict kvs)
            \<longrightarrow> fst (upload_to_instagram net video_path access_token ig_user_id)
                  = Inl AttributeError)"
proof (intro conjI allI impI)
  fix kvs
  assume "res_json res = Some (PDict kvs)" "map_of kvs ''id'' = None"
  then show "fst (upload_to_instagram net video_path access_token ig_user_id)
                  = Inl (Exception ''Error creating container'' (res_text res))"
    using assms by (simp add: upload_to_instagram_unfold json_def)
next
  assume "res_json res = None"
  then show "fst (upload_to_instagram net video_path access_token ig_user_id) = Inl JSONDecodeError"
    using assms by (simp add: upload_to_instagram_unfold json_def)
next
  fix decoded
  assume "res_json res = Some decoded" "\<forall>kvs. decoded \<noteq> PDict kvs"
  then show "fst (upload_to_instagram net video_path access_token ig_user_id) = Inl AttributeError"
    using assms by (cases decoded) (simp_all add: upload_to_instagram_unfold json_def)
qed

theorem upload_to_instagram_missing_id_raises_witness:
  \<open>res_json res_no_id = Some (PDict [])
   \<and> map_of ([] :: (string \<times> pyval) list) ''id'' = None
   \<and> fst (upload_to_instagram (scripted res_no_id res_published)
            ''https://cdn.example/clip.mp4'' ''token'' ''1784'')
       = Inl (Exception ''Error creating container'' ''{}'')
   \<and> res_json res_not_json = None
   \<and> fst (upload_to_instagram (scripted res_not_json res_published)
            ''https://cdn.example/clip.mp4'' ''token'' ''1784'') = Inl JSONDecodeError
   \<and> res_json res_list_body = Some (PList [])
   \<and> fst (upload_to_instagram (scripted res_list_body res_published)
            ''https://cdn.example/clip.mp4'' ''token'' ''1784'') = Inl AttributeError\<close>
  using upload_to_instagram_missing_id_raises [of "scripted res_no_id res_published"
        "''https://cdn.example/clip.mp4''" "''token''" "''1784''" res_no_id]
    upload_to_instagram_missing_id_raises [of "scripted res_not_json res_published"
        "''https://cdn.example/clip.mp4''" "''token''" "''1784''" res_not_json]
    upload_to_instagram_missing_id_raises [of "scripted res_list_body res_published"
        "''https://cdn.example/clip.mp4''" "''token''" "''1784''" res_list_body]
  by (simp add: scripted_def res_no_id_def res_not_json_def res_list_body_def)

text \<open>
  Claim C3. When the body of the container-creation response has no \<open>id\<close> field (it is
  not an object that has one), the only request issued is the creation request: the
  number of requests to the publish endpoint is 0, and the call ends in an exception.
\<close>

theorem upload_to_instagram_missing_id_no_publish:
  assumes "net [] (creation_request video_path access_token ig_user_id) = Inr res"
    and "\<forall>kvs. res_json res = Some (PDict kvs) \<longrightarrow> map_of kvs ''id'' = None"
  shows "snd (upload_to_instagram net video_path access_token ig_user_id)
           = [creation_request video_path access_token ig_user_id]
         \<and> publish_calls ig_user_id
             (snd (upload_to_instagram net video_path access_token ig_user_id)) = 0
         \<and> isl (fst (upload_to_instagram net video_path access_token ig_user_id))"
proof -
  have "upload_to_instagram net video_path access_token ig_user_id
          = (Inl JSONDecodeError, [creation_request video_path access_token ig_user_id])
      \<or> upload_to_instagram net video_path access_token ig_user_id
          = (Inl AttributeError, [creation_request video_path access_token ig_user_id])
      \<or> upload_to_instagram net video_path access_token ig_user_id
          = (Inl (Exception ''Error creating container'' (res_text res)),
             [creation_request video_path access_token ig_user_id])"
  proof (cases "res_json res")
    case None
    then show ?thesis using assms(1) by (simp add: upload_to_instagram_unfold json_def)
  next
    case (Some decoded)
    then show ?thesis using assms
      by (cases decoded) (simp_all add: upload_to_instagram_unfold json_def)
  qed
  then show ?thesis
    by (auto simp: publish_calls_creation_only)
qed

theorem upload_to_instagram_missing_id_no_publish_witness:
  "scripted res_no_id res_published []
       (creation_request ''https://cdn.example/clip.mp4'' ''token'' ''1784'') = Inr res_no_id
   \<and> res_json res_no_id = Some (PDict [])
   \<and> snd (upload_to_instagram (scripted res_no_id res_published)
            ''https://cdn.example/clip.mp4'' ''token'' ''1784'')
       = [creation_request ''https://cdn.example/clip.mp4'' ''token'' ''1784'']
   \<and> publish_calls ''1784''
        (snd (upload_to_instagram (scripted res_no_id res_published)
            ''https://cdn.example/clip.mp4'' ''token'' ''1784'')) = 0"
  using upload_to_instagram_missing_id_no_publish [of "scripted res_no_id res_published"
        "''https://cdn.example/clip.mp4''" "''token''" "''1784''" res_no_id]
  by (simp add: scripted_def res_no_id_def publish_calls_creation_only)

text \<open>
  Claim C4. When the container-creation response has a non-empty (truthy) \<open>id\<close> and the
  publish response has a status other than 200, the call raises
  \<open>Exception("Error publishing video", res.text)\<close>: the publish error, carrying the raw
  text of the publish response.
\<close>

theorem upload_to_instagram_publish_failure_raises:
  assumes "net [] (creation_request video_path access_token ig_user_id) = Inr res"
    and "res_json res = Some (PDict kvs)"
    and "map_of kvs ''id'' = Some container_id"
    and "truthy container_id"
    and "net [creation_request video_path access_token ig_user_id]
           (publish_request container_id access_token ig_user_id) = Inr res2"
    and "status_code res2 \<noteq> 200"
  shows "fst (upload_to_instagram net video_path access_token ig_user_id)
           = Inl (Exception ''Error publishing video'' (res_text res2))"
  using assms by (simp add: upload_to_instagram_unfold json_def)

theorem upload_to_instagram_publish_failure_raises_witness:
  "scripted res_container res_publish_failed []
       (creation_request ''https://cdn.example/clip.mp4'' ''token'' ''1784'') = Inr res_container
   \<and> res_json res_container = Some (PDict [(''id'', PStr ''17895'')])
   \<and> truthy (PStr ''17895'')
   \<and> status_code res_publish_failed \<noteq> 200
   \<and> fst (upload_to_instagram (scripted res_container res_publish_failed)
            ''https://cdn.example/clip.mp4'' ''token'' ''1784'')
       = Inl (Exception ''Error publishing video'' ''Internal Server Error'')"
  using upload_to_instagram_publish_failure_raises
        [of "scripted res_container res_publish_failed"
        "''https://cdn.example/clip.mp4''" "''token''" "''1784''" res_container
        "[(''id'', PStr ''17895'')]" "PStr ''17895''" res_publish_failed]
  by (simp add: scripted_def res_container_def res_publish_failed_def)

text \<open>What the call does when the creation body is no JSON document, or no object.\<close>

lemma upload_to_instagram_creation_not_json:
  assumes "net [] (creation_request video_path access_token ig_user_id) = Inr res"
    and "res_json res = None"
  shows "upload_to_instagram net video_path access_token ig_user_id
           = (Inl JSONDecodeError, [creation_request video_path access_token ig_user_id])"
  using assms by (simp add: upload_to_instagram_unfold json_def)

lemma upload_to_instagram_creation_list:
  assumes "net [] (creation_request video_path access_token ig_user_id) = Inr res"
    and "res_json res = Some (PList xs)"
  shows "upload_to_instagram net video_path access_token ig_user_id
           = (Inl AttributeError, [creation_request video_path access_token ig_user_id])"
  using assms by (simp add: upload_to_instagram_unfold json_def)

text \<open>A value stored in a \<open>dict\<close> is smaller than the \<open>dict\<close>, hence different from it.\<close>

lemma map_of_size: "map_of kvs k = Some v \<Longrightarrow> size v < size (PDict kvs)"
  by (induction kvs) (auto split: if_splits)

lemma dict_neq_member: "map_of kvs k = Some v \<Longrightarrow> PDict kvs \<noteq> v"
  using map_of_size by fastforce

lemma map_of_filter_key: "map_of (filter (\<lambda>kv. fst kv \<noteq> k) kvs) k = None"
  by (induction kvs) auto

lemma with_creation_status_later:
  "sent \<noteq> [] \<Longrightarrow> with_creation_status c net sent rq = net sent rq"
  by (simp add: with_creation_status_def)

text \<open>
  Claim C7. The status code of the container-creation response is never inspected:
  replacing it by any other code leaves the outcome and the requests issued unchanged;
  and whenever that response carries a non-empty (truthy) \<open>id\<close>, whatever its status,
  the publish request is issued next.
\<close>

theorem upload_to_instagram_ignores_creation_status:
  "upload_to_instagram (with_creation_status c net) video_path access_token ig_user_id
     = upload_to_instagram net video_path access_token ig_user_id
   \<and> (\<forall>res kvs container_id.
         net [] (creation_request video_path access_token ig_user_id) = Inr res
         \<longrightarrow> res_json res = Some (PDict kvs)
         \<longrightarrow> map_of kvs ''id'' = Some container_id
         \<longrightarrow> truthy container_id
         \<longrightarrow> snd (upload_to_instagram net video_path access_token ig_user_id)
               = [creation_request video_path access_token ig_user_id,
                  publish_request container_id access_token ig_user_id])"
proof
  show "upload_to_instagram (with_creation_status c net) video_path access_token ig_user_id
     = upload_to_instagram net video_path access_token ig_user_id"
  proof (cases "net [] (creation_request video_path access_token ig_user_id)")
    case (Inl e)
    then show ?thesis
      by (simp add: upload_to_instagram_def requests_post_def with_creation_status_def
          creation_request_def)
  next
    case (Inr res)
    then have "with_creation_status c net [] (creation_request video_path access_token ig_user_id)
        = Inr (res\<lparr>status_code := c\<rparr>)"
      by (simp add: with_creation_status_def)
    then show ?thesis using Inr
      by (simp add: upload_to_instagram_unfold json_def with_creation_status_later
          split: option.splits sum.splits)
  qed
next
  show "\<forall>res kvs container_id.
         net [] (creation_request video_path access_token ig_user_id) = Inr res
         \<longrightarrow> res_json res = Some (PDict kvs)
         \<longrightarrow> map_of kvs ''id'' = Some container_id
         \<longrightarrow> truthy container_id
         \<longrightarrow> snd (upload_to_instagram net video_path access_token ig_user_id)
               = [creation_request video_path access_token ig_user_id,
                  publish_request container_id access_token ig_user_id]"
    by (simp add: upload_to_instagram_unfold json_def split: sum.splits)
qed

theorem upload_to_instagram_ignores_creation_status_witness:
  "scripted res_container_500 res_published []
       (creation_request ''https://cdn.example/clip.mp4'' ''token'' ''1784'')
     = Inr res_container_500
   \<and> status_code res_container_500 = 500
   \<and> res_json res_container_500 = Some (PDict [(''id'', PStr ''17895'')])
   \<and> truthy (PStr ''17895'')
   \<and> upload_to_instagram (with_creation_status 200 (scripted res_container_500 res_published))
        ''https://cdn.example/clip.mp4'' ''token'' ''1784''
       = upload_to_instagram (scripted res_container_500 res_published)
        ''https://cdn.example/clip.mp4'' ''token'' ''1784''
   \<and> snd (upload_to_instagram (scripted res_container_500 res_published)
            ''https://cdn.example/clip.mp4'' ''token'' ''1784'')
       = [creation_request ''https://cdn.example/clip.mp4'' ''token'' ''1784'',
          publish_request (PStr ''17895'') ''token'' ''1784'']"
  using upload_to_instagram_ignores_creation_status [of 200 "scripted res_container_500 res_published"
        "''https://cdn.example/clip.mp4''" "''token''" "''1784''"]
  by (simp add: scripted_def res_container_500_def)

text \<open>
  Claim C9. When the \<open>id\<close> field of the container-creation response is present but falsy
  (for instance \<open>""\<close>, \<open>0\<close>, \<open>false\<close> or \<open>null\<close>, see \<open>falsy_values\<close>), the call raises the
  creation error with the raw response text and issues no publish request, exactly as it
  does for the same response with the \<open>id\<close> field removed.
\<close>

theorem upload_to_instagram_falsy_id_raises:
  assumes "net [] (creation_request video_path access_token ig_user_id) = Inr res"
    and "res_json res = Some (PDict kvs)"
    and "map_of kvs ''id'' = Some v"
    and "\<not> truthy v"
  shows "upload_to_instagram net video_path access_token ig_user_id
           = (Inl (Exception ''Error creating container'' (res_text res)),
              [creation_request video_path access_token ig_user_id])
         \<and> publish_calls ig_user_id
             (snd (upload_to_instagram net video_path access_token ig_user_id)) = 0
         \<and> upload_to_instagram
             (\<lambda>sent rq. if sent = []
                then Inr (res\<lparr>res_json := Some (PDict (filter (\<lambda>kv. fst kv \<noteq> ''id'') kvs))\<rparr>)
                else net sent rq)
             video_path access_token ig_user_id
           = upload_to_instagram net video_path access_token ig_user_id"
proof -
  have a: "upload_to_instagram net video_path access_token ig_user_id
           = (Inl (Exception ''Error creating container'' (res_text res)),
              [creation_request video_path access_token ig_user_id])"
    using assms by (simp add: upload_to_instagram_unfold json_def)
  have b: "upload_to_instagram
             (\<lambda>sent rq. if sent = []
                then Inr (res\<lparr>res_json := Some (PDict (filter (\<lambda>kv. fst kv \<noteq> ''id'') kvs))\<rparr>)
                else net sent rq)
             video_path access_token ig_user_id
           = (Inl (Exception ''Error creating container'' (res_text res)),
              [creation_request video_path access_token ig_user_id])"
    by (subst upload_to_instagram_unfold
          [where res = "res\<lparr>res_json := Some (PDict (filter (\<lambda>kv. fst kv \<noteq> ''id'') kvs))\<rparr>"])
       (simp_all add: json_def map_of_filter_key)
  show ?thesis
    using a b by (simp add: publish_calls_creation_only)
qed

theorem upload_to_instagram_falsy_id_raises_witness:
  "scripted res_zero_id res_published []
       (creation_request ''https://cdn.example/clip.mp4'' ''token'' ''1784'') = Inr res_zero_id
   \<and> res_json res_zero_id = Some (PDict [(''id'', PInt 0)])
   \<and> \<not> truthy (PInt 0)
   \<and> upload_to_instagram (scripted res_zero_id res_published)
        ''https://cdn.example/clip.mp4'' ''token'' ''1784''
       = (Inl (Exception ''Error creating container'' (res_text res_zero_id)),
          [creation_request ''https://cdn.example/clip.mp4'' ''token'' ''1784''])
   \<and> publish_calls ''1784''
        (snd (upload_to_instagram (scripted res_zero_id res_published)
            ''https://cdn.example/clip.mp4'' ''token'' ''1784'')) = 0"
  using upload_to_instagram_falsy_id_raises [of "scripted res_zero_id res_published"
        "''https://cdn.example/clip.mp4''" "''token''" "''1784''" res_zero_id
        "[(''id'', PInt 0)]" "PInt 0"]
  by (simp add: scripted_def res_zero_id_def publish_calls_creation_only)

lemma upload_to_instagram_first_request:
  "\<exists>rest. snd (upload_to_instagram net video_path access_token ig_user_id)
            = creation_request video_path access_token ig_user_id # rest"
proof (cases "net [] (creation_request video_path access_token ig_user_id)")
  case (Inl e)
  then show ?thesis
    by (simp add: upload_to_instagram_def requests_post_def creation_request_def)
next
  case (Inr res)
  then show ?thesis
    by (simp add: upload_to_instagram_unfold split: sum.splits)
qed

text \<open>
  Claim C10. The first request of every call is the creation request, and its \<open>caption\<close>
  field is the constant \<open>"Posted via AI backend!"\<close>, whatever the three arguments (and
  whatever the remote side answers).
\<close>

theorem upload_to_instagram_fixed_caption:
  "snd (upload_to_instagram net video_path access_token ig_user_id) \<noteq> []
   \<and> req_url (hd (snd (upload_to_instagram net video_path access_token ig_user_id)))
       = video_url ig_user_id
   \<and> map_of (req_data (hd (snd (upload_to_instagram net video_path access_token ig_user_id))))
        ''caption'' = Some (PStr ''Posted via AI backend!'')"
proof -
  obtain rest where "snd (upload_to_instagram net video_path access_token ig_user_id)
            = creation_request video_path access_token ig_user_id # rest"
    using upload_to_instagram_first_request by blast
  then show ?thesis
    by (simp add: creation_request_def params_def)
qed

section \<open>Properties of \<open>upload_to_youtube\<close>\<close>

lemma upload_to_youtube_unfold:
  assumes "from_service_account_file g credentials_json scopes = Inr c"
    and "build g ''youtube'' ''v3'' c = Inr y"
    and "videos g y = Inr r"
    and "MediaFileUpload g video_path = Inr m"
  shows "upload_to_youtube g video_path title description credentials_json =
     (case insert_request g r ''snippet,status'' (body title description) m of
        Inl e \<Rightarrow> (Inl e,
           [Call_from_service_account_file credentials_json scopes,
            Call_build ''youtube'' ''v3'' c, Call_videos y, Call_MediaFileUpload video_path,
            Call_insert r ''snippet,status'' (body title description) m])
      | Inr request \<Rightarrow>
          (case execute g request of
             Inl e \<Rightarrow> Inl e
           | Inr response \<Rightarrow> py_subscript response ''id'',
           [Call_from_service_account_file credentials_json scopes,
            Call_build ''youtube'' ''v3'' c, Call_videos y, Call_MediaFileUpload video_path,
            Call_insert r ''snippet,status'' (body title description) m,
            Call_execute request]))"
  using assms by (simp add: upload_to_youtube_def Let_def split: sum.splits)

lemma upload_to_youtube_first_call:
  "\<exists>rest. snd (upload_to_youtube g video_path title description credentials_json)
      = Call_from_service_account_file credentials_json scopes # rest"
  by (simp add: upload_to_youtube_def Let_def split: sum.splits)

lemma upload_to_youtube_constructed_cases:
  "requests_constructed g (snd (upload_to_youtube g video_path title description credentials_json))
     = (if \<exists>c y r m request.
             from_service_account_file g credentials_json scopes = Inr c
             \<and> build g ''youtube'' ''v3'' c = Inr y
             \<and> videos g y = Inr r
             \<and> MediaFileUpload g video_path = Inr m
             \<and> insert_request g r ''snippet,status'' (body title description) m = Inr request
        then 1 else 0)"
  by (auto simp: upload_to_youtube_def Let_def requests_constructed_def split: sum.splits)

text \<open>What the call does when the insert response is an object without an \<open>id\<close>.\<close>

lemma upload_to_youtube_missing_id:
  assumes "from_service_account_file g credentials_json scopes = Inr c"
    and "build g ''youtube'' ''v3'' c = Inr y"
    and "videos g y = Inr r"
    and "MediaFileUpload g video_path = Inr m"
    and "insert_request g r ''snippet,status'' (body title description) m = Inr request"
    and "execute g request = Inr (PDict kvs)"
    and "map_of kvs ''id'' = None"
  shows "fst (upload_to_youtube g video_path title description credentials_json)
           = Inl (KeyError ''id'')"
  using assms by (simp add: upload_to_youtube_unfold)

text \<open>
  Claim C5. With a credential file and a video path the library accepts, and an insert
  request whose execution succeeds with a response object, the call returns exactly the
  value of the \<open>id\<close> field of that response.
\<close>

theorem upload_to_youtube_returns_id:
  assumes "from_service_account_file g credentials_json
             [''https://www.googleapis.com/auth/youtube.upload''] = Inr c"
    and "build g ''youtube'' ''v3'' c = Inr y"
    and "videos g y = Inr r"
    and "MediaFileUpload g video_path = Inr m"
    and "insert_request g r ''snippet,status'' (body title description) m = Inr request"
    and "execute g request = Inr (PDict kvs)"
    and "map_of kvs ''id'' = Some v"
  shows "fst (upload_to_youtube g video_path title description credentials_json) = Inr v"
  using assms by (simp add: upload_to_youtube_unfold scopes_def)

theorem upload_to_youtube_returns_id_witness:
  \<open>execute (demo_client (PDict [(''kind'', PStr ''youtube#video''), (''id'', PStr ''dQw4w9WgXcQ'')]))
      ((''key.json'', [''https://www.googleapis.com/auth/youtube.upload'']),
       body ''My clip'' ''A highlight'', ''clip.mp4'')
     = Inr (PDict [(''kind'', PStr ''youtube#video''), (''id'', PStr ''dQw4w9WgXcQ'')])
   \<and> fst (upload_to_youtube
        (demo_client (PDict [(''kind'', PStr ''youtube#video''), (''id'', PStr ''dQw4w9WgXcQ'')]))
        ''clip.mp4'' ''My clip'' ''A highlight'' ''key.json'') = Inr (PStr ''dQw4w9WgXcQ'')\<close>
  using upload_to_youtube_returns_id [of \<open>demo_client (PDict [(''kind'', PStr ''youtube#video''), (''id'', PStr ''dQw4w9WgXcQ'')])\<close>
      \<open>''key.json''\<close> \<open>(''key.json'', [''https://www.googleapis.com/auth/youtube.upload''])\<close>
      \<open>(''key.json'', [''https://www.googleapis.com/auth/youtube.upload''])\<close>
      \<open>(''key.json'', [''https://www.googleapis.com/auth/youtube.upload''])\<close>
      \<open>''clip.mp4''\<close> \<open>''clip.mp4''\<close> \<open>''My clip''\<close> \<open>''A highlight''\<close>
      \<open>((''key.json'', [''https://www.googleapis.com/auth/youtube.upload'']),
         body ''My clip'' ''A highlight'', ''clip.mp4'')\<close>
      \<open>[(''kind'', PStr ''youtube#video''), (''id'', PStr ''dQw4w9WgXcQ'')]\<close>
      \<open>PStr ''dQw4w9WgXcQ''\<close>]
  by (simp add: demo_client_def)

text \<open>
  Claim C6 says that every call constructs exactly one upload request. With a key file
  that cannot be read, loading the credential raises, the call ends there, and no request
  is constructed.
\<close>

theorem upload_to_youtube_unreadable_key_no_request:
  "upload_to_youtube no_key_client ''clip.mp4'' ''My clip'' ''A highlight'' ''missing.json''
     = (Inl (LibraryError ''FileNotFoundError''),
        [Call_from_service_account_file ''missing.json''
           [''https://www.googleapis.com/auth/youtube.upload'']])
   \<and> requests_constructed no_key_client
        (snd (upload_to_youtube no_key_client ''clip.mp4'' ''My clip'' ''A highlight''
                ''missing.json'')) = 0"
  by (simp add: upload_to_youtube_def Let_def requests_constructed_def no_key_client_def
      demo_client_def scopes_def)

text \<open>
  Claim C6, as amended. Every call first builds the credential from the given key file
  with the single upload scope. When the credential, the client, the \<open>videos()\<close> resource
  and the media upload of the video file are obtained and \<open>insert\<close> returns a request,
  exactly one upload request is constructed: the calls made are exactly the six listed,
  the request is prepared for \<open>part="snippet,status"\<close> with the body made of the snippet
  (the caller's title and description, the fixed tags and the fixed category \<open>"22"\<close>) and
  the status (privacy \<open>"unlisted"\<close>), with the video file as its media body, and it is
  the request executed. In every other call no upload request is constructed.
\<close>

theorem upload_to_youtube_single_request:
  "hd (snd (upload_to_youtube g video_path title description credentials_json))
     = Call_from_service_account_file credentials_json
         [''https://www.googleapis.com/auth/youtube.upload'']
   \<and> (\<forall>c y r m request.
         from_service_account_file g credentials_json
           [''https://www.googleapis.com/auth/youtube.upload''] = Inr c
         \<longrightarrow> build g ''youtube'' ''v3'' c = Inr y
         \<longrightarrow> videos g y = Inr r
         \<longrightarrow> MediaFileUpload g video_path = Inr m
         \<longrightarrow> insert_request g r ''snippet,status''
               (PDict [(''snippet'',
                        PDict [(''title'', PStr title),
                               (''description'', PStr description),
                               (''tags'', PList [PStr ''AI'', PStr ''Video'', PStr ''Generated'']),
                               (''categoryId'', PStr ''22'')]),
                       (''status'', PDict [(''privacyStatus'', PStr ''unlisted'')])])
               m = Inr request
         \<longrightarrow> snd (upload_to_youtube g video_path title description credentials_json)
               = [Call_from_service_account_file credentials_json
                    [''https://www.googleapis.com/auth/youtube.upload''],
                  Call_build ''youtube'' ''v3'' c,
                  Call_videos y,
                  Call_MediaFileUpload video_path,
                  Call_insert r ''snippet,status''
                    (PDict [(''snippet'',
                             PDict [(''title'', PStr title),
                                    (''description'', PStr description),
                                    (''tags'', PList [PStr ''AI'', PStr ''Video'', PStr ''Generated'']),
                                    (''categoryId'', PStr ''22'')]),
                            (''status'', PDict [(''privacyStatus'', PStr ''unlisted'')])])
                    m,
                  Call_execute request]
             \<and> requests_constructed g
                   (snd (upload_to_youtube g video_path title description credentials_json)) = 1)
   \<and> ((\<nexists>c y r m request.
         from_service_account_file g credentials_json
           [''https://www.googleapis.com/auth/youtube.upload''] = Inr c
         \<and> build g ''youtube'' ''v3'' c = Inr y
         \<and> videos g y = Inr r
         \<and> MediaFileUpload g video_path = Inr m
         \<and> insert_request g r ''snippet,status''
               (PDict [(''snippet'',
                        PDict [(''title'', PStr title),
                               (''description'', PStr description),
                               (''tags'', PList [PStr ''AI'', PStr ''Video'', PStr ''Generated'']),
                               (''categoryId'', PStr ''22'')]),
                       (''status'', PDict [(''privacyStatus'', PStr ''unlisted'')])])
               m = Inr request)
        \<longrightarrow> requests_constructed g
              (snd (upload_to_youtube g video_path title description credentials_json)) = 0)"
proof (intro conjI allI impI)
  show "hd (snd (upload_to_youtube g video_path title description credentials_json))
     = Call_from_service_account_file credentials_json
         [''https://www.googleapis.com/auth/youtube.upload'']"
    using upload_to_youtube_first_call [of g video_path title description credentials_json]
    by (auto simp: scopes_def)
next
  fix c y r m request
  assume h: "from_service_account_file g credentials_json
           [''https://www.googleapis.com/auth/youtube.upload''] = Inr c"
    "build g ''youtube'' ''v3'' c = Inr y" "videos g y = Inr r"
    "MediaFileUpload g video_path = Inr m"
    "insert_request g r ''snippet,status''
               (PDict [(''snippet'',
                        PDict [(''title'', PStr title),
                               (''description'', PStr description),
                               (''tags'', PList [PStr ''AI'', PStr ''Video'', PStr ''Generated'']),
                               (''categoryId'', PStr ''22'')]),
                       (''status'', PDict [(''privacyStatus'', PStr ''unlisted'')])])
               m = Inr request"
  then show "snd (upload_to_youtube g video_path title description credentials_json)
               = [Call_from_service_account_file credentials_json
                    [''https://www.googleapis.com/auth/youtube.upload''],
                  Call_build ''youtube'' ''v3'' c,
                  Call_videos y,
                  Call_MediaFileUpload video_path,
                  Call_insert r ''snippet,status''
                    (PDict [(''snippet'',
                             PDict [(''title'', PStr title),
                                    (''description'', PStr description),
                                    (''tags'', PList [PStr ''AI'', PStr ''Video'', PStr ''Generated'']),
                                    (''categoryId'', PStr ''22'')]),
                            (''status'', PDict [(''privacyStatus'', PStr ''unlisted'')])])
                    m,
                  Call_execute request]"
    by (simp add: upload_to_youtube_unfold scopes_def body_def)
  from h have "\<exists>c y r m request.
             from_service_account_file g credentials_json scopes = Inr c
             \<and> build g ''youtube'' ''v3'' c = Inr y
             \<and> videos g y = Inr r
             \<and> MediaFileUpload g video_path = Inr m
             \<and> insert_request g r ''snippet,status'' (body title description) m = Inr request"
    by (auto simp: scopes_def body_def)
  then show "requests_constructed g
                   (snd (upload_to_youtube g video_path title description credentials_json)) = 1"
    by (simp add: upload_to_youtube_constructed_cases)
next
  assume "\<nexists>c y r m request.
         from_service_account_file g credentials_json
           [''https://www.googleapis.com/auth/youtube.upload''] = Inr c
         \<and> build g ''youtube'' ''v3'' c = Inr y
         \<and> videos g y = Inr r
         \<and> MediaFileUpload g video_path = Inr m
         \<and> insert_request g r ''snippet,status''
               (PDict [(''snippet'',
                        PDict [(''title'', PStr title),
                               (''description'', PStr description),
                               (''tags'', PList [PStr ''AI'', PStr ''Video'', PStr ''Generated'']),
                               (''categoryId'', PStr ''22'')]),
                       (''status'', PDict [(''privacyStatus'', PStr ''unlisted'')])])
               m = Inr request"
  then have "\<not> (\<exists>c y r m request.
             from_service_account_file g credentials_json scopes = Inr c
             \<and> build g ''youtube'' ''v3'' c = Inr y
             \<and> videos g y = Inr r
             \<and> MediaFileUpload g video_path = Inr m
             \<and> insert_request g r ''snippet,status'' (body title description) m = Inr request)"
    by (simp add: scopes_def body_def)
  then show "requests_constructed g
              (snd (upload_to_youtube g video_path title description credentials_json)) = 0"
    by (simp add: upload_to_youtube_constructed_cases)
qed

theorem upload_to_youtube_single_request_witness:
  "snd (upload_to_youtube (demo_client (PDict [(''id'', PStr ''dQw4w9WgXcQ'')]))
        ''clip.mp4'' ''My clip'' ''A highlight'' ''key.json'')
     = [Call_from_service_account_file ''key.json''
          [''https://www.googleapis.com/auth/youtube.upload''],
        Call_build ''youtube'' ''v3''
          (''key.json'', [''https://www.googleapis.com/auth/youtube.upload'']),
        Call_videos (''key.json'', [''https://www.googleapis.com/auth/youtube.upload'']),
        Call_MediaFileUpload ''clip.mp4'',
        Call_insert (''key.json'', [''https://www.googleapis.com/auth/youtube.upload''])
          ''snippet,status''
          (PDict [(''snippet'',
                   PDict [(''title'', PStr ''My clip''),
                          (''description'', PStr ''A highlight''),
                          (''tags'', PList [PStr ''AI'', PStr ''Video'', PStr ''Generated'']),
                          (''categoryId'', PStr ''22'')]),
                  (''status'', PDict [(''privacyStatus'', PStr ''unlisted'')])])
          ''clip.mp4'',
        Call_execute
          ((''key.json'', [''https://www.googleapis.com/auth/youtube.upload'']),
           PDict [(''snippet'',
                   PDict [(''title'', PStr ''My clip''),
                          (''description'', PStr ''A highlight''),
                          (''tags'', PList [PStr ''AI'', PStr ''Video'', PStr ''Generated'']),
                          (''categoryId'', PStr ''22'')]),
                  (''status'', PDict [(''privacyStatus'', PStr ''unlisted'')])],
           ''clip.mp4'')]
   \<and> requests_constructed (demo_client (PDict [(''id'', PStr ''dQw4w9WgXcQ'')]))
        (snd (upload_to_youtube (demo_client (PDict [(''id'', PStr ''dQw4w9WgXcQ'')]))
           ''clip.mp4'' ''My clip'' ''A highlight'' ''key.json'')) = 1
   \<and> from_service_account_file no_key_client ''missing.json''
        [''https://www.googleapis.com/auth/youtube.upload'']
       = Inl (LibraryError ''FileNotFoundError'')
   \<and> requests_constructed no_key_client
        (snd (upload_to_youtube no_key_client ''clip.mp4'' ''My clip'' ''A highlight''
                ''missing.json'')) = 0"
  using upload_to_youtube_single_request [of "demo_client (PDict [(''id'', PStr ''dQw4w9WgXcQ'')])"
      "''clip.mp4''" "''My clip''" "''A highlight''" "''key.json''"]
    upload_to_youtube_single_request [of no_key_client "''clip.mp4''" "''My clip''" "''A highlight''" "''missing.json''"]
  by (simp add: demo_client_def no_key_client_def requests_constructed_def)

section \<open>What the two publishers return\<close>

text \<open>
  Claim C8 says that \<open>upload_to_instagram\<close> returns the platform identifier itself. At the
  specification's own scenario (creation body \<open>{"id": "17895"}\<close>, publish response 200
  with body \<open>{"id": "final123"}\<close>) the value returned is the object
  \<open>{"id": "final123"}\<close>, not the identifier \<open>"final123"\<close>.
\<close>

theorem upload_to_instagram_returns_object_not_identifier:
  "fst (upload_to_instagram (scripted res_container res_published)
          ''https://cdn.example/clip.mp4'' ''token'' ''1784'')
     = Inr (PDict [(''id'', PStr ''final123'')])
   \<and> fst (upload_to_instagram (scripted res_container res_published)
          ''https://cdn.example/clip.mp4'' ''token'' ''1784'')
     \<noteq> Inr (PStr ''final123'')"
  by (simp add: upload_to_instagram_def requests_post_def scripted_def json_def
      res_container_def res_published_def)

text \<open>
  Claim C8, as amended. On success each publisher produces the platform-assigned
  identifier, in two ways: \<open>upload_to_instagram\<close> returns the decoded JSON body of the
  publish response, and when that body is an object with an \<open>id\<close> field the identifier is
  the value of that field of the result, not the result itself; \<open>upload_to_youtube\<close>
  returns the value of the \<open>id\<close> field of the insert response.
\<close>

theorem publishers_return_identifier:
  "(\<forall>res kvs container_id res2 kvs2 platform_id.
      net [] (creation_request video_path access_token ig_user_id) = Inr res
      \<longrightarrow> res_json res = Some (PDict kvs)
      \<longrightarrow> map_of kvs ''id'' = Some container_id
      \<longrightarrow> truthy container_id
      \<longrightarrow> net [creation_request video_path access_token ig_user_id]
            (publish_request container_id access_token ig_user_id) = Inr res2
      \<longrightarrow> status_code res2 = 200
      \<longrightarrow> res_json res2 = Some (PDict kvs2)
      \<longrightarrow> map_of kvs2 ''id'' = Some platform_id
      \<longrightarrow> fst (upload_to_instagram net video_path access_token ig_user_id) = Inr (PDict kvs2)
          \<and> py_subscript (PDict kvs2) ''id'' = Inr platform_id
          \<and> fst (upload_to_instagram net video_path access_token ig_user_id) \<noteq> Inr platform_id)
   \<and> (\<forall>c y r m request kvs v.
      from_service_account_file g credentials_json
        [''https://www.googleapis.com/auth/youtube.upload''] = Inr c
      \<longrightarrow> build g ''youtube'' ''v3'' c = Inr y
      \<longrightarrow> videos g y = Inr r
      \<longrightarrow> MediaFileUpload g file_path = Inr m
      \<longrightarrow> insert_request g r ''snippet,status'' (body title description) m = Inr request
      \<longrightarrow> execute g request = Inr (PDict kvs)
      \<longrightarrow> map_of kvs ''id'' = Some v
      \<longrightarrow> fst (upload_to_youtube g file_path title description credentials_json) = Inr v)"
proof (intro conjI allI impI)
  fix res kvs container_id res2 kvs2 platform_id
  assume h: "net [] (creation_request video_path access_token ig_user_id) = Inr res"
    "res_json res = Some (PDict kvs)" "map_of kvs ''id'' = Some container_id"
    "truthy container_id"
    "net [creation_request video_path access_token ig_user_id]
            (publish_request container_id access_token ig_user_id) = Inr res2"
    "status_code res2 = 200" "res_json res2 = Some (PDict kvs2)"
    "map_of kvs2 ''id'' = Some platform_id"
  then show r: "fst (upload_to_instagram net video_path access_token ig_user_id) = Inr (PDict kvs2)"
    by (simp add: upload_to_instagram_unfold json_def)
  show "py_subscript (PDict kvs2) ''id'' = Inr platform_id"
    using h by simp
  show "fst (upload_to_instagram net video_path access_token ig_user_id) \<noteq> Inr platform_id"
    using r dict_neq_member [OF h(8)] by simp
next
  fix c y r m request kvs v
  assume "from_service_account_file g credentials_json
        [''https://www.googleapis.com/auth/youtube.upload''] = Inr c"
    "build g ''youtube'' ''v3'' c = Inr y" "videos g y = Inr r"
    "MediaFileUpload g file_path = Inr m"
    "insert_request g r ''snippet,status'' (body title description) m = Inr request"
    "execute g request = Inr (PDict kvs)" "map_of kvs ''id'' = Some v"
  then show "fst (upload_to_youtube g file_path title description credentials_json) = Inr v"
    by (simp add: upload_to_youtube_unfold scopes_def)
qed

theorem publishers_return_identifier_witness:
  "scripted res_container res_published []
       (creation_request ''https://cdn.example/clip.mp4'' ''token'' ''1784'') = Inr res_container
   \<and> res_json res_container = Some (PDict [(''id'', PStr ''17895'')])
   \<and> truthy (PStr ''17895'')
   \<and> status_code res_published = 200
   \<and> res_json res_published = Some (PDict [(''id'', PStr ''final123'')])
   \<and> fst (upload_to_instagram (scripted res_container res_published)
            ''https://cdn.example/clip.mp4'' ''token'' ''1784'')
       = Inr (PDict [(''id'', PStr ''final123'')])
   \<and> py_subscript (PDict [(''id'', PStr ''final123'')]) ''id'' = Inr (PStr ''final123'')
   \<and> fst (upload_to_youtube (demo_client (PDict [(''id'', PStr ''dQw4w9WgXcQ'')]))
        ''clip.mp4'' ''My clip'' ''A highlight'' ''key.json'') = Inr (PStr ''dQw4w9WgXcQ'')"
  using publishers_return_identifier [of "scripted res_container res_published"
        "''https://cdn.example/clip.mp4''" "''token''" "''1784''"
        "demo_client (PDict [(''id'', PStr ''dQw4w9WgXcQ'')])" "''key.json''" "''clip.mp4''"
        "''My clip''" "''A highlight''"]
  by (simp add: scripted_def res_container_def res_published_def demo_client_def)

end
